theory Spec2Isabelle
  imports Main
begin

section \<open>The libcrypt shim of portunus: \<open>internal/crypt/lowlevel.c\<close>\<close>

text \<open>
  The file wraps three entry points of libcrypt for a Go caller: \<open>feature_test\<close>,
  \<open>wrap_crypt_r\<close> and \<open>wrap_crypt_gensalt_rn\<close>. The library itself (\<open>crypt.h\<close>) is
  not part of the repository. Everything the C file takes from it is a field of the record
  \<open>libcrypt\<close> below, and every theorem holds for all values of these fields.
\<close>

subsection \<open>Characters, arrays and strings\<close>

text \<open>
  A C \<open>char\<close> is a \<^typ>\<open>char\<close> (one byte), an array of them a \<^typ>\<open>string\<close>, the
  terminator is \<open>CHR 0x00\<close>. A parameter of type \<open>const char*\<close> is modelled by what it
  points at: \<open>None\<close> is the null pointer, \<open>Some bs\<close> a pointer to an array holding the
  bytes \<open>bs\<close>. The string such a pointer denotes ends before the first terminator of
  \<open>bs\<close>; an array without terminator is not a string.
\<close>

type_synonym const_char_ptr = "string option"

abbreviation NUL :: char where
  "NUL \<equiv> CHR 0x00"

text \<open>Undefined behaviour of the C program is a value of its own.\<close>

datatype fault = Null_dereference | Overrun

text \<open>The bytes of an array before its first terminator.\<close>

definition c_str :: "string \<Rightarrow> string" where
  "c_str bs = takeWhile (\<lambda>c. c \<noteq> NUL) bs"

text \<open>\<open>strlen(p)\<close>: reads through the pointer until it meets a terminator.\<close>

definition strlen :: "const_char_ptr \<Rightarrow> fault + nat" where
  "strlen p =
     (case p of
        None \<Rightarrow> Inl Null_dereference
      | Some bs \<Rightarrow> if NUL \<in> set bs then Inr (length (c_str bs)) else Inl Overrun)"

subsection \<open>Objects and their lifetimes\<close>

text \<open>
  \<open>struct crypt_data\<close> is declared by \<open>crypt.h\<close>. The shim names one member,
  \<open>output\<close> (here \<open>data_output\<close>); the other members are kept together.
\<close>

record crypt_data =
  data_output :: string
  other_members :: string

datatype storage = Automatic | Allocated

datatype cval = Char_array string | Struct_crypt_data crypt_data

record object =
  duration :: storage
  val :: cval

text \<open>A \<open>char*\<close> the shim hands back: null, or the address of an object.\<close>

datatype ptr = NULL | Ptr nat

text \<open>What a libcrypt function returns: only whether it is null is ever looked at.\<close>

datatype lib_result = Null | Non_null

text \<open>The calls made into libcrypt, with the arguments as passed.\<close>

datatype lib_call =
    Call_crypt_r const_char_ptr const_char_ptr crypt_data
  | Call_crypt_gensalt_rn const_char_ptr nat const_char_ptr int string int

text \<open>
  The state a call runs in. Objects live at addresses \<open>0, 1, ...\<close> in \<open>store\<close>;
  an address is never reused, and holds \<open>None\<close> once the lifetime of its object has
  ended. \<open>heap_free\<close> is the number of bytes \<open>malloc\<close> can still hand out, \<open>junk\<close> is
  what automatic storage holds before it is initialised, \<open>calls\<close> lists the calls into
  libcrypt so far.
\<close>

record state =
  store :: "object option list"
  heap_free :: nat
  junk :: "nat \<Rightarrow> char"
  calls :: "lib_call list"

definition lookup :: "state \<Rightarrow> nat \<Rightarrow> object option" where
  "lookup s a = (if a < length (store s) then store s ! a else None)"

definition new_object :: "storage \<Rightarrow> cval \<Rightarrow> state \<Rightarrow> nat \<times> state" where
  "new_object d v s =
     (length (store s), s\<lparr>store := store s @ [Some \<lparr>duration = d, val = v\<rparr>]\<rparr>)"

definition assign :: "nat \<Rightarrow> cval \<Rightarrow> state \<Rightarrow> state" where
  "assign a v s = s\<lparr>store := (store s)[a := Some \<lparr>duration = Automatic, val = v\<rparr>]\<rparr>"

definition end_lifetime :: "nat \<Rightarrow> state \<Rightarrow> state" where
  "end_lifetime a s = s\<lparr>store := (store s)[a := None]\<rparr>"

definition record_call :: "lib_call \<Rightarrow> state \<Rightarrow> state" where
  "record_call c s = s\<lparr>calls := calls s @ [c]\<rparr>"

text \<open>An automatic array of \<open>n\<close> chars without initialiser.\<close>

definition indeterminate :: "state \<Rightarrow> nat \<Rightarrow> string" where
  "indeterminate s n = map (junk s) [0..<n]"

text \<open>
  A callee that is given an array writes its bytes from the start of the array and
  cannot change the extent of the array: the bytes it did not reach stay as they were.
\<close>

definition written_into :: "string \<Rightarrow> string \<Rightarrow> string" where
  "written_into old new = take (length old) (new @ drop (length new) old)"

subsection \<open>The C library: \<open>malloc\<close>, \<open>memset\<close>, \<open>strdup\<close>, \<open>strndup\<close>\<close>

text \<open>\<open>malloc\<close> on behalf of \<open>strdup\<close> and \<open>strndup\<close>: null when the heap is exhausted.\<close>

definition malloc_string :: "string \<Rightarrow> state \<Rightarrow> ptr \<times> state" where
  "malloc_string t s =
     (if heap_free s < length t + 1 then (NULL, s)
      else
        let (a, s') = new_object Allocated (Char_array (t @ [NUL]))
                        (s\<lparr>heap_free := heap_free s - (length t + 1)\<rparr>)
        in (Ptr a, s'))"

text \<open>\<open>memset(&data, c, sizeof(struct crypt_data))\<close>.\<close>

definition memset :: "crypt_data \<Rightarrow> char \<Rightarrow> crypt_data" where
  "memset d c =
     \<lparr>data_output = replicate (length (data_output d)) c,
      other_members = replicate (length (other_members d)) c\<rparr>"

text \<open>
  \<open>strdup(a)\<close> for an array \<open>a\<close>: a new allocated string holding the bytes before the
  first terminator, and a terminator. It reads past the array when there is none.
\<close>

definition strdup :: "string \<Rightarrow> state \<Rightarrow> fault + (ptr \<times> state)" where
  "strdup bs s = (if NUL \<in> set bs then Inr (malloc_string (c_str bs) s) else Inl Overrun)"

text \<open>
  \<open>strndup(a, n)\<close>: as \<open>strdup\<close>, but it reads at most \<open>n\<close> bytes; it stops at the first
  terminator among them.
\<close>

definition strndup :: "string \<Rightarrow> nat \<Rightarrow> state \<Rightarrow> fault + (ptr \<times> state)" where
  "strndup bs n s =
     (if NUL \<in> set (take n bs) \<or> n \<le> length bs
      then Inr (malloc_string (c_str (take n bs)) s)
      else Inl Overrun)"

subsection \<open>What \<open>crypt.h\<close> provides\<close>

text \<open>
  The two feature macros (defined or not), the two sizes, the extent of the members of
  \<open>struct crypt_data\<close> other than \<open>output\<close>, and the two functions. A function is given
  the contents of the array or struct it may write to and returns, with its result, what
  it wrote there. The entropy \<open>crypt_gensalt_rn\<close> draws is not a separate argument: the
  theorems hold for every function, hence for every draw.
\<close>

record libcrypt =
  CRYPT_GENSALT_IMPLEMENTS_DEFAULT_PREFIX :: bool
  CRYPT_GENSALT_IMPLEMENTS_AUTO_ENTROPY :: bool
  CRYPT_GENSALT_OUTPUT_SIZE :: nat
  CRYPT_OUTPUT_SIZE :: nat
  sizeof_other_members :: nat
  crypt_r :: "const_char_ptr \<Rightarrow> const_char_ptr \<Rightarrow> crypt_data \<Rightarrow> lib_result \<times> crypt_data"
  crypt_gensalt_rn ::
    "const_char_ptr \<Rightarrow> nat \<Rightarrow> const_char_ptr \<Rightarrow> int \<Rightarrow> string \<Rightarrow> int \<Rightarrow> lib_result \<times> string"

subsection \<open>\<open>feature_test\<close>\<close>

text \<open>
  Each \<open>#ifndef\<close> block is compiled in exactly when its macro is not defined, and it
  returns at once.
\<close>

definition feature_test :: "libcrypt \<Rightarrow> string option" where
  "feature_test L =
     (if \<not> CRYPT_GENSALT_IMPLEMENTS_DEFAULT_PREFIX L
      then Some ''libcrypt does not support CRYPT_GENSALT_IMPLEMENTS_DEFAULT_PREFIX''
      else if \<not> CRYPT_GENSALT_IMPLEMENTS_AUTO_ENTROPY L
      then Some ''libcrypt does not support CRYPT_GENSALT_IMPLEMENTS_AUTO_ENTROPY''
      else None)"

subsection \<open>\<open>wrap_crypt_r\<close>\<close>

text \<open>The declaration \<open>struct crypt_data data;\<close>, before the \<open>memset\<close>.\<close>

definition uninitialised_data :: "libcrypt \<Rightarrow> state \<Rightarrow> crypt_data" where
  "uninitialised_data L s =
     \<lparr>data_output = indeterminate s (CRYPT_OUTPUT_SIZE L),
      other_members =
        map (junk s) [CRYPT_OUTPUT_SIZE L ..< CRYPT_OUTPUT_SIZE L + sizeof_other_members L]\<rparr>"

text \<open>
  The call \<open>crypt_r(phrase, setting, &data)\<close>: the result, and \<open>data\<close> after the call.
\<close>

definition call_crypt_r ::
  "libcrypt \<Rightarrow> const_char_ptr \<Rightarrow> const_char_ptr \<Rightarrow> crypt_data \<Rightarrow> lib_result \<times> crypt_data" where
  "call_crypt_r L phrase setting d =
     (let (result, w) = crypt_r L phrase setting d
      in (result,
          \<lparr>data_output = written_into (data_output d) (data_output w),
           other_members = written_into (other_members d) (other_members w)\<rparr>))"

definition wrap_crypt_r ::
  "libcrypt \<Rightarrow> state \<Rightarrow> const_char_ptr \<Rightarrow> const_char_ptr \<Rightarrow> fault + (ptr \<times> state)" where
  "wrap_crypt_r L s phrase setting =
     (let (data, s1) = new_object Automatic (Struct_crypt_data (uninitialised_data L s)) s;
          d0 = memset (uninitialised_data L s) NUL;
          s2 = assign data (Struct_crypt_data d0) s1;
          (result, d1) = call_crypt_r L phrase setting d0;
          s3 = assign data (Struct_crypt_data d1)
                 (record_call (Call_crypt_r phrase setting d0) s2)
      in if result = Null then Inr (NULL, end_lifetime data s3)
         else
           (case strdup (data_output d1) s3 of
              Inl f \<Rightarrow> Inl f
            | Inr (p, s4) \<Rightarrow> Inr (p, end_lifetime data s4)))"

subsection \<open>\<open>wrap_crypt_gensalt_rn\<close>\<close>

text \<open>
  The call \<open>crypt_gensalt_rn(prefix, 0, NULL, 0, buf, sizeof(buf))\<close>: the result, and
  \<open>buf\<close> after the call.
\<close>

definition call_crypt_gensalt_rn ::
  "libcrypt \<Rightarrow> const_char_ptr \<Rightarrow> string \<Rightarrow> lib_result \<times> string" where
  "call_crypt_gensalt_rn L prefix buf =
     (let (result, w) = crypt_gensalt_rn L prefix 0 None 0 buf (int (length buf))
      in (result, written_into buf w))"

definition wrap_crypt_gensalt_rn ::
  "libcrypt \<Rightarrow> state \<Rightarrow> const_char_ptr \<Rightarrow> fault + (ptr \<times> state)" where
  "wrap_crypt_gensalt_rn L s prefix0 =
     (case strlen prefix0 of
        Inl f \<Rightarrow> Inl f
      | Inr n \<Rightarrow>
          let prefix = (if n = 0 then None else prefix0);
              b0 = indeterminate s (CRYPT_GENSALT_OUTPUT_SIZE L);
              (buf, s1) = new_object Automatic (Char_array b0) s;
              (result, b1) = call_crypt_gensalt_rn L prefix b0;
              s2 = assign buf (Char_array b1)
                     (record_call
                        (Call_crypt_gensalt_rn prefix 0 None 0 b0 (int (length b0))) s1)
          in if result = Null then Inr (NULL, end_lifetime buf s2)
             else
               (case strndup b1 (CRYPT_GENSALT_OUTPUT_SIZE L) s2 of
                  Inl f \<Rightarrow> Inl f
                | Inr (p, s3) \<Rightarrow> Inr (p, end_lifetime buf s3)))"

subsection \<open>What the caller sees\<close>

text \<open>The string held by the object at an address, if it holds one.\<close>

definition string_at :: "state \<Rightarrow> nat \<Rightarrow> string option" where
  "string_at s a =
     (case lookup s a of
        Some ob \<Rightarrow>
          (case val ob of
             Char_array bs \<Rightarrow> if NUL \<in> set bs then Some (c_str bs) else None
           | Struct_crypt_data d \<Rightarrow> None)
      | None \<Rightarrow> None)"

text \<open>
  The outcome of a call for the Go side: undefined, an error (the null pointer), or the
  returned text.
\<close>

datatype outcome = Undefined fault | Error | Text string | Garbage

definition outcome_of :: "fault + (ptr \<times> state) \<Rightarrow> outcome" where
  "outcome_of r =
     (case r of
        Inl f \<Rightarrow> Undefined f
      | Inr (NULL, s') \<Rightarrow> Error
      | Inr (Ptr a, s') \<Rightarrow> (case string_at s' a of Some t \<Rightarrow> Text t | None \<Rightarrow> Garbage))"

subsection \<open>Values the theorems speak about\<close>

text \<open>\<open>struct crypt_data\<close> with every byte zero.\<close>

definition zeroed_data :: "libcrypt \<Rightarrow> crypt_data" where
  "zeroed_data L =
     \<lparr>data_output = replicate (CRYPT_OUTPUT_SIZE L) NUL,
      other_members = replicate (sizeof_other_members L) NUL\<rparr>"

text \<open>
  The state after a call that made the library call \<open>c\<close> and returned null, and after
  one that returned a copy of \<open>t\<close>.
\<close>

definition returned :: "state \<Rightarrow> lib_call \<Rightarrow> state" where
  "returned s c = s\<lparr>store := store s @ [None], calls := calls s @ [c]\<rparr>"

definition returned_copy :: "state \<Rightarrow> lib_call \<Rightarrow> string \<Rightarrow> state" where
  "returned_copy s c t =
     s\<lparr>store := store s @ [None, Some \<lparr>duration = Allocated, val = Char_array (t @ [NUL])\<rparr>],
       heap_free := heap_free s - (length t + 1),
       calls := calls s @ [c]\<rparr>"

subsection \<open>A library and four states to run the shim on\<close>

text \<open>
  A stand-in for libxcrypt with its sizes (192, 384, and 32768 bytes for the whole
  struct). Its \<open>crypt_r\<close> accepts a setting that starts with \<open>$\<close>; its
  \<open>crypt_gensalt_rn\<close> knows the prefix \<open>$6$\<close> and has a default.
\<close>

definition example_crypt_r ::
  "const_char_ptr \<Rightarrow> const_char_ptr \<Rightarrow> crypt_data \<Rightarrow> lib_result \<times> crypt_data" where
  "example_crypt_r phrase setting d =
     (case (phrase, setting) of
        (Some p, Some st) \<Rightarrow>
          if take 1 st = ''$''
          then (Non_null, d\<lparr>data_output := c_str st @ ''$'' @ rev (c_str p) @ [NUL]\<rparr>)
          else (Null, d)
      | _ \<Rightarrow> (Null, d))"

definition example_crypt_gensalt_rn ::
  "const_char_ptr \<Rightarrow> nat \<Rightarrow> const_char_ptr \<Rightarrow> int \<Rightarrow> string \<Rightarrow> int \<Rightarrow> lib_result \<times> string" where
  "example_crypt_gensalt_rn prefix count rbytes nrbytes buf output_size =
     (case prefix of
        None \<Rightarrow> (Non_null, ''$y$j9T$salt'' @ [NUL])
      | Some p \<Rightarrow> if c_str p = ''$6$'' then (Non_null, ''$6$salt'' @ [NUL]) else (Null, []))"

definition example_libcrypt :: libcrypt where
  "example_libcrypt =
     \<lparr>CRYPT_GENSALT_IMPLEMENTS_DEFAULT_PREFIX = True,
      CRYPT_GENSALT_IMPLEMENTS_AUTO_ENTROPY = True,
      CRYPT_GENSALT_OUTPUT_SIZE = 192,
      CRYPT_OUTPUT_SIZE = 384,
      sizeof_other_members = 32384,
      crypt_r = example_crypt_r,
      crypt_gensalt_rn = example_crypt_gensalt_rn\<rparr>"

definition example_state :: state where
  "example_state = \<lparr>store = [], heap_free = 4096, junk = (\<lambda>n. CHR ''J''), calls = []\<rparr>"

definition exhausted_state :: state where
  "exhausted_state = \<lparr>store = [], heap_free = 0, junk = (\<lambda>n. CHR ''J''), calls = []\<rparr>"

definition tight_state :: state where
  "tight_state = \<lparr>store = [], heap_free = 15, junk = (\<lambda>n. CHR ''J''), calls = []\<rparr>"

definition busy_state :: state where
  "busy_state =
     \<lparr>store = [Some \<lparr>duration = Allocated, val = Char_array (''x'' @ [NUL])\<rparr>],
      heap_free = 4096,
      junk = (\<lambda>n. if even n then CHR ''a'' else CHR ''b''),
      calls = [Call_crypt_gensalt_rn None 0 None 0 [] 0]\<rparr>"

section \<open>Auxiliary facts\<close>

subsection \<open>Strings and arrays\<close>

lemma NUL_notin_c_str: "NUL \<notin> set (c_str bs)"
  unfolding c_str_def by (induction bs) auto

lemma length_c_str_le: "length (c_str bs) \<le> length bs"
  unfolding c_str_def by (rule length_takeWhile_le)

lemma length_c_str_less: "NUL \<in> set bs \<Longrightarrow> length (c_str bs) < length bs"
  unfolding c_str_def by (induction bs) auto

lemma c_str_no_NUL: "NUL \<notin> set bs \<Longrightarrow> c_str bs = bs"
  unfolding c_str_def by (induction bs) auto

lemma c_str_append_NUL: "NUL \<notin> set t \<Longrightarrow> c_str (t @ NUL # bs) = t"
  unfolding c_str_def by (induction t) auto

lemma length_written_into: "length (written_into old new) = length old"
  by (simp add: written_into_def)

lemma length_indeterminate: "length (indeterminate s n) = n"
  by (simp add: indeterminate_def)

lemma data_output_zeroed: "data_output (zeroed_data L) = replicate (CRYPT_OUTPUT_SIZE L) NUL"
  by (simp add: zeroed_data_def)

lemma memset_uninitialised_data: "memset (uninitialised_data L s) NUL = zeroed_data L"
  by (simp add: memset_def uninitialised_data_def zeroed_data_def indeterminate_def)

lemma strndup_whole: "length b = n \<Longrightarrow> strndup b n s = Inr (malloc_string (c_str b) s)"
  by (simp add: strndup_def)

lemma call_crypt_gensalt_rn_length:
  "call_crypt_gensalt_rn L p b0 = (r, b1) \<Longrightarrow> length b1 = length b0"
  by (auto simp: call_crypt_gensalt_rn_def length_written_into split: prod.splits)

lemma call_crypt_r_length:
  "call_crypt_r L phrase setting (zeroed_data L) = (r, d1) \<Longrightarrow>
   length (data_output d1) = CRYPT_OUTPUT_SIZE L"
  by (auto simp: call_crypt_r_def length_written_into data_output_zeroed split: prod.splits)

subsection \<open>The two wrappers, step by step\<close>

lemma wrap_crypt_r_eq:
  "wrap_crypt_r L s phrase setting =
     (let c = Call_crypt_r phrase setting (zeroed_data L);
          (r, d1) = call_crypt_r L phrase setting (zeroed_data L)
      in if r = Null then Inr (NULL, returned s c)
         else if NUL \<notin> set (data_output d1) then Inl Overrun
         else if heap_free s < length (c_str (data_output d1)) + 1 then Inr (NULL, returned s c)
         else Inr (Ptr (Suc (length (store s))), returned_copy s c (c_str (data_output d1))))"
  by (simp add: wrap_crypt_r_def memset_uninitialised_data new_object_def assign_def
      record_call_def end_lifetime_def strdup_def malloc_string_def returned_def
      returned_copy_def Let_def split: prod.splits)

lemma wrap_crypt_gensalt_rn_eq:
  "wrap_crypt_gensalt_rn L s prefix0 =
     (case strlen prefix0 of
        Inl f \<Rightarrow> Inl f
      | Inr n \<Rightarrow>
          let prefix = (if n = 0 then None else prefix0);
              b0 = indeterminate s (CRYPT_GENSALT_OUTPUT_SIZE L);
              c = Call_crypt_gensalt_rn prefix 0 None 0 b0 (int (CRYPT_GENSALT_OUTPUT_SIZE L));
              (r, b1) = call_crypt_gensalt_rn L prefix b0
          in if r = Null \<or> heap_free s < length (c_str b1) + 1 then Inr (NULL, returned s c)
             else Inr (Ptr (Suc (length (store s))), returned_copy s c (c_str b1)))"
proof (cases "strlen prefix0")
  case (Inl f)
  then show ?thesis by (simp add: wrap_crypt_gensalt_rn_def)
next
  case (Inr n)
  define p where "p = (if n = 0 then None else prefix0)"
  define b0 where "b0 = indeterminate s (CRYPT_GENSALT_OUTPUT_SIZE L)"
  obtain r b1 where call: "call_crypt_gensalt_rn L p b0 = (r, b1)"
    by (cases "call_crypt_gensalt_rn L p b0")
  have len0: "length b0 = CRYPT_GENSALT_OUTPUT_SIZE L"
    by (simp add: b0_def length_indeterminate)
  have len: "length b1 = CRYPT_GENSALT_OUTPUT_SIZE L"
    using call_crypt_gensalt_rn_length [OF call] len0 by simp
  show ?thesis
    using Inr call len len0
    by (simp add: wrap_crypt_gensalt_rn_def p_def [symmetric] b0_def [symmetric]
        strndup_whole new_object_def assign_def record_call_def end_lifetime_def
        malloc_string_def returned_def returned_copy_def Let_def)
qed


lemma strlen_Inr_iff: "(\<exists>n. strlen p = Inr n) \<longleftrightarrow> (\<exists>bs. p = Some bs \<and> NUL \<in> set bs)"
  by (auto simp: strlen_def split: option.splits)

subsection \<open>The state after a call\<close>

lemma lookup_returned:
  "lookup (returned s c) a = (if a = length (store s) then None else lookup s a)"
  by (auto simp: lookup_def returned_def nth_append)

lemma lookup_returned_copy:
  "lookup (returned_copy s c t) a =
     (if a = Suc (length (store s))
      then Some \<lparr>duration = Allocated, val = Char_array (t @ [NUL])\<rparr>
      else if a = length (store s) then None else lookup s a)"
  by (auto simp: lookup_def returned_copy_def nth_append nth_Cons')

lemma string_at_returned_copy:
  "NUL \<notin> set t \<Longrightarrow> string_at (returned_copy s c t) (Suc (length (store s))) = Some t"
  by (simp add: string_at_def lookup_returned_copy c_str_append_NUL)

lemma wrap_crypt_r_post:
  assumes "wrap_crypt_r L s phrase setting = Inr (p, s')"
  shows "(p = NULL \<and> s' = returned s (Call_crypt_r phrase setting (zeroed_data L)))
       \<or> (\<exists>t. NUL \<notin> set t \<and> length t + 1 \<le> heap_free s
              \<and> p = Ptr (Suc (length (store s)))
              \<and> s' = returned_copy s (Call_crypt_r phrase setting (zeroed_data L)) t)"
proof -
  obtain r d1 where call: "call_crypt_r L phrase setting (zeroed_data L) = (r, d1)"
    by (cases "call_crypt_r L phrase setting (zeroed_data L)")
  show ?thesis
    using assms NUL_notin_c_str [of "data_output d1"]
    by (auto simp: wrap_crypt_r_eq call Let_def split: if_splits)
qed

lemma wrap_crypt_gensalt_rn_post:
  assumes "wrap_crypt_gensalt_rn L s prefix = Inr (p, s')"
  defines "c \<equiv> Call_crypt_gensalt_rn (if strlen prefix = Inr 0 then None else prefix) 0 None 0
                 (indeterminate s (CRYPT_GENSALT_OUTPUT_SIZE L))
                 (int (CRYPT_GENSALT_OUTPUT_SIZE L))"
  shows "(p = NULL \<and> s' = returned s c)
       \<or> (\<exists>t. NUL \<notin> set t \<and> length t + 1 \<le> heap_free s
              \<and> p = Ptr (Suc (length (store s)))
              \<and> s' = returned_copy s c t)"
proof -
  obtain n where n: "strlen prefix = Inr n"
    using assms(1) by (cases "strlen prefix") (simp_all add: wrap_crypt_gensalt_rn_def)
  define q where "q = (if n = 0 then None else prefix)"
  obtain r b1 where call:
    "call_crypt_gensalt_rn L q (indeterminate s (CRYPT_GENSALT_OUTPUT_SIZE L)) = (r, b1)"
    by (cases "call_crypt_gensalt_rn L q (indeterminate s (CRYPT_GENSALT_OUTPUT_SIZE L))")
  have q: "(if strlen prefix = Inr 0 then None else prefix) = q"
    by (simp add: n q_def)
  show ?thesis
    using assms(1) NUL_notin_c_str [of b1] unfolding c_def q
    by (auto simp: wrap_crypt_gensalt_rn_eq n q_def [symmetric] call Let_def split: if_splits)
qed


lemma calls_returned: "calls (returned s c) = calls s @ [c]"
  by (simp add: returned_def)

lemma calls_returned_copy: "calls (returned_copy s c t) = calls s @ [c]"
  by (simp add: returned_copy_def)

lemma wrap_crypt_gensalt_rn_success:
  assumes "strlen prefix = Inr n"
    and "call_crypt_gensalt_rn L (if n = 0 then None else prefix)
           (indeterminate s (CRYPT_GENSALT_OUTPUT_SIZE L)) = (Non_null, b1)"
    and "length (c_str b1) + 1 \<le> heap_free s"
  shows "wrap_crypt_gensalt_rn L s prefix =
           Inr (Ptr (Suc (length (store s))),
                returned_copy s
                  (Call_crypt_gensalt_rn (if n = 0 then None else prefix) 0 None 0
                     (indeterminate s (CRYPT_GENSALT_OUTPUT_SIZE L))
                     (int (CRYPT_GENSALT_OUTPUT_SIZE L)))
                  (c_str b1))"
  using assms by (simp add: wrap_crypt_gensalt_rn_eq)

subsection \<open>What the caller sees of each wrapper\<close>

lemma outcome_wrap_crypt_r:
  assumes "call_crypt_r L phrase setting (zeroed_data L) = (r, d1)"
  shows "outcome_of (wrap_crypt_r L s phrase setting) =
           (if r = Null then Error
            else if NUL \<notin> set (data_output d1) then Undefined Overrun
            else if heap_free s < length (c_str (data_output d1)) + 1 then Error
            else Text (c_str (data_output d1)))"
  using assms
  by (simp add: wrap_crypt_r_eq outcome_of_def string_at_returned_copy NUL_notin_c_str)


subsection \<open>A run of \<open>wrap_crypt_gensalt_rn\<close> on the prefix \<open>$6$\<close>\<close>

lemma example_gensalt_call:
  "call_crypt_gensalt_rn example_libcrypt (Some (''$6$'' @ [NUL]))
     (indeterminate example_state 192) =
     (Non_null, ''$6$salt'' @ NUL # replicate 184 (CHR ''J''))"
proof -
  have "indeterminate example_state 192 = replicate 192 (CHR ''J'')"
    by (simp add: indeterminate_def example_state_def map_replicate_const)
  then show ?thesis
    by (simp add: call_crypt_gensalt_rn_def example_libcrypt_def example_crypt_gensalt_rn_def
        c_str_def written_into_def)
qed

lemma example_gensalt_c_str:
  "c_str (''$6$salt'' @ NUL # replicate 184 (CHR ''J'')) = ''$6$salt''"
  by (simp add: c_str_def)

lemma example_gensalt_strlen: "strlen (Some (''$6$'' @ [NUL])) = Inr 3"
  by (simp add: strlen_def c_str_def)

lemma example_gensalt_size: "CRYPT_GENSALT_OUTPUT_SIZE example_libcrypt = 192"
  by (simp add: example_libcrypt_def)

lemma example_gensalt_call_as_made:
  "call_crypt_gensalt_rn example_libcrypt
     (if strlen (Some (''$6$'' @ [NUL])) = Inr 0 then None else Some (''$6$'' @ [NUL]))
     (indeterminate example_state (CRYPT_GENSALT_OUTPUT_SIZE example_libcrypt)) =
     (Non_null, ''$6$salt'' @ NUL # replicate 184 (CHR ''J''))"
  using example_gensalt_call example_gensalt_strlen by (simp add: example_gensalt_size)

lemma example_gensalt_run:
  "wrap_crypt_gensalt_rn example_libcrypt example_state (Some (''$6$'' @ [NUL])) =
     Inr (Ptr 1,
          returned_copy example_state
            (Call_crypt_gensalt_rn (Some (''$6$'' @ [NUL])) 0 None 0
               (indeterminate example_state 192) 192)
            ''$6$salt'')"
proof -
  have st: "length (store example_state) = 0" "heap_free example_state = 4096"
    by (simp_all add: example_state_def)
  have call3: "call_crypt_gensalt_rn example_libcrypt
        (if (3::nat) = 0 then None else Some (''$6$'' @ [NUL]))
        (indeterminate example_state (CRYPT_GENSALT_OUTPUT_SIZE example_libcrypt)) =
       (Non_null, ''$6$salt'' @ NUL # replicate 184 (CHR ''J''))"
    using example_gensalt_call by (simp add: example_gensalt_size)
  have room: "length (c_str (''$6$salt'' @ NUL # replicate 184 (CHR ''J''))) + 1
      \<le> heap_free example_state"
    using example_gensalt_c_str by (simp add: st)
  show ?thesis
    using wrap_crypt_gensalt_rn_success [OF example_gensalt_strlen call3 room]
      example_gensalt_c_str
    by (simp add: example_gensalt_size st)
qed

section \<open>Properties\<close>

text \<open>
  C1, as the code has it. The object a successful \<open>wrap_crypt_gensalt_rn\<close> returns holds
  the bytes of \<open>buf\<close> that come before the first terminator among its
  \<open>CRYPT_GENSALT_OUTPUT_SIZE\<close> bytes, and one terminator after them: what \<open>strndup\<close>
  copies. As many bytes as \<open>buf\<close> has are copied only when \<open>buf\<close> holds no
  terminator.
\<close>

theorem gensalt_copy_stops_at_terminator:
  assumes "wrap_crypt_gensalt_rn L s prefix = Inr (Ptr a, s')"
    and "call_crypt_gensalt_rn L (if strlen prefix = Inr 0 then None else prefix)
           (indeterminate s (CRYPT_GENSALT_OUTPUT_SIZE L)) = (r, b1)"
  shows "lookup s' a =
           Some \<lparr>duration = Allocated,
                 val = Char_array
                         (takeWhile (\<lambda>c. c \<noteq> NUL) (take (CRYPT_GENSALT_OUTPUT_SIZE L) b1) @ [NUL])\<rparr>
       \<and> length b1 = CRYPT_GENSALT_OUTPUT_SIZE L
       \<and> (length (takeWhile (\<lambda>c. c \<noteq> NUL) (take (CRYPT_GENSALT_OUTPUT_SIZE L) b1)) =
            CRYPT_GENSALT_OUTPUT_SIZE L \<longleftrightarrow> NUL \<notin> set b1)"
proof -
  obtain n where n: "strlen prefix = Inr n"
    using assms(1) by (cases "strlen prefix") (simp_all add: wrap_crypt_gensalt_rn_def)
  have call: "call_crypt_gensalt_rn L (if n = 0 then None else prefix)
           (indeterminate s (CRYPT_GENSALT_OUTPUT_SIZE L)) = (r, b1)"
    using assms(2) by (simp add: n)
  have len: "length b1 = CRYPT_GENSALT_OUTPUT_SIZE L"
    using call_crypt_gensalt_rn_length [OF call] by (simp add: length_indeterminate)
  then have window: "takeWhile (\<lambda>c. c \<noteq> NUL) (take (CRYPT_GENSALT_OUTPUT_SIZE L) b1) = c_str b1"
    by (simp add: c_str_def)
  have "a = Suc (length (store s)) \<and>
      s' = returned_copy s
             (Call_crypt_gensalt_rn (if n = 0 then None else prefix) 0 None 0
                (indeterminate s (CRYPT_GENSALT_OUTPUT_SIZE L))
                (int (CRYPT_GENSALT_OUTPUT_SIZE L)))
             (c_str b1)"
    using assms(1) by (auto simp: wrap_crypt_gensalt_rn_eq n call Let_def split: if_splits)
  then have object: "lookup s' a =
      Some \<lparr>duration = Allocated, val = Char_array (c_str b1 @ [NUL])\<rparr>"
    by (simp add: lookup_returned_copy)
  have full: "length (c_str b1) = CRYPT_GENSALT_OUTPUT_SIZE L \<longleftrightarrow> NUL \<notin> set b1"
  proof (cases "NUL \<in> set b1")
    case True
    then show ?thesis using length_c_str_less [OF True] len by simp
  next
    case False
    then show ?thesis using c_str_no_NUL [OF False] len by simp
  qed
  show ?thesis
    using object len full unfolding window by blast
qed

theorem gensalt_copy_stops_at_terminator_witness:
  "wrap_crypt_gensalt_rn example_libcrypt example_state (Some (''$6$'' @ [NUL])) =
     Inr (Ptr 1,
          returned_copy example_state
            (Call_crypt_gensalt_rn (Some (''$6$'' @ [NUL])) 0 None 0
               (indeterminate example_state 192) 192)
            ''$6$salt'')
   \<and> lookup
        (returned_copy example_state
           (Call_crypt_gensalt_rn (Some (''$6$'' @ [NUL])) 0 None 0
              (indeterminate example_state 192) 192)
           ''$6$salt'') 1 =
       Some \<lparr>duration = Allocated, val = Char_array (''$6$salt'' @ [NUL])\<rparr>"
proof -
  have "takeWhile (\<lambda>c. c \<noteq> NUL) (take 192 (''$6$salt'' @ NUL # replicate 184 (CHR ''J''))) =
      ''$6$salt''"
    by simp
  with gensalt_copy_stops_at_terminator [OF example_gensalt_run example_gensalt_call_as_made]
  have "lookup
        (returned_copy example_state
           (Call_crypt_gensalt_rn (Some (''$6$'' @ [NUL])) 0 None 0
              (indeterminate example_state 192) 192)
           ''$6$salt'') 1 =
       Some \<lparr>duration = Allocated, val = Char_array (''$6$salt'' @ [NUL])\<rparr>"
    by (simp add: example_gensalt_size)
  with example_gensalt_run show ?thesis by simp
qed

text \<open>
  C1, as the claim has it, fails: asked for the prefix \<open>$6$\<close>, the library writes
  \<open>$6$salt\<close> and a terminator into the 192 bytes of \<open>buf\<close>, and the caller gets
  these 7 bytes, not the 192 bytes of \<open>buf\<close>.
\<close>

theorem gensalt_copy_is_not_the_window:
  "outcome_of (wrap_crypt_gensalt_rn example_libcrypt example_state (Some (''$6$'' @ [NUL]))) =
     Text ''$6$salt''
   \<and> snd (call_crypt_gensalt_rn example_libcrypt (Some (''$6$'' @ [NUL]))
             (indeterminate example_state 192)) =
       ''$6$salt'' @ NUL # replicate 184 (CHR ''J'')
   \<and> length (''$6$salt'' @ NUL # replicate 184 (CHR ''J'')) =
       CRYPT_GENSALT_OUTPUT_SIZE example_libcrypt
   \<and> ''$6$salt'' \<noteq> ''$6$salt'' @ NUL # replicate 184 (CHR ''J'')
   \<and> length ''$6$salt'' \<noteq> CRYPT_GENSALT_OUTPUT_SIZE example_libcrypt"
proof -
  have "string_at
        (returned_copy example_state
           (Call_crypt_gensalt_rn (Some (''$6$'' @ [NUL])) 0 None 0
              (indeterminate example_state 192) 192)
           ''$6$salt'') (Suc (length (store example_state))) = Some ''$6$salt''"
    by (rule string_at_returned_copy) simp
  moreover have "length (store example_state) = 0"
    by (simp add: example_state_def)
  ultimately have "outcome_of
      (wrap_crypt_gensalt_rn example_libcrypt example_state (Some (''$6$'' @ [NUL]))) =
     Text ''$6$salt''"
    using example_gensalt_run by (simp add: outcome_of_def)
  then show ?thesis
    using example_gensalt_call by (simp add: example_gensalt_size)
qed

text \<open>
  C2, as the code has it. \<open>wrap_crypt_r\<close> returns null exactly when \<open>crypt_r\<close> returned
  null or \<open>strdup\<close> could not allocate the copy. When \<open>crypt_r\<close> succeeds and the copy is
  allocated, the caller gets the string \<open>crypt_r\<close> left in \<open>data.output\<close>. A null from
  \<open>crypt_r\<close> is never turned into a text, empty or not.
\<close>

theorem wrap_crypt_r_error_iff:
  assumes "call_crypt_r L phrase setting (zeroed_data L) = (r, d1)"
  shows "(outcome_of (wrap_crypt_r L s phrase setting) = Error \<longleftrightarrow>
            r = Null \<or>
            (NUL \<in> set (data_output d1) \<and> heap_free s < length (c_str (data_output d1)) + 1))
       \<and> (r = Non_null \<and> NUL \<in> set (data_output d1) \<and>
            length (c_str (data_output d1)) + 1 \<le> heap_free s \<longrightarrow>
            outcome_of (wrap_crypt_r L s phrase setting) = Text (c_str (data_output d1)))
       \<and> (r = Null \<longrightarrow> (\<forall>t. outcome_of (wrap_crypt_r L s phrase setting) \<noteq> Text t))"
  by (cases r) (auto simp: outcome_wrap_crypt_r [OF assms])

theorem wrap_crypt_r_error_iff_witness:
  "call_crypt_r example_libcrypt (Some (''secret'' @ [NUL])) (Some (''$6$salt'' @ [NUL]))
     (zeroed_data example_libcrypt) =
     (Non_null,
      \<lparr>data_output = ''$6$salt$terces'' @ NUL # replicate 369 NUL,
       other_members = replicate 32384 NUL\<rparr>)
   \<and> NUL \<in> set (''$6$salt$terces'' @ NUL # replicate 369 NUL)
   \<and> length (c_str (''$6$salt$terces'' @ NUL # replicate 369 NUL)) + 1 \<le> heap_free example_state
   \<and> outcome_of
        (wrap_crypt_r example_libcrypt example_state
           (Some (''secret'' @ [NUL])) (Some (''$6$salt'' @ [NUL]))) =
       Text ''$6$salt$terces''
   \<and> outcome_of
        (wrap_crypt_r example_libcrypt exhausted_state
           (Some (''secret'' @ [NUL])) (Some (''$6$salt'' @ [NUL]))) =
       Error"
proof -
  have call: "call_crypt_r example_libcrypt (Some (''secret'' @ [NUL])) (Some (''$6$salt'' @ [NUL]))
     (zeroed_data example_libcrypt) =
     (Non_null,
      \<lparr>data_output = ''$6$salt$terces'' @ NUL # replicate 369 NUL,
       other_members = replicate 32384 NUL\<rparr>)"
    by (simp add: call_crypt_r_def example_libcrypt_def example_crypt_r_def zeroed_data_def
        written_into_def c_str_def)
  have str: "c_str (''$6$salt$terces'' @ NUL # replicate 369 NUL) = ''$6$salt$terces''"
    by (simp add: c_str_def)
  have nul: "NUL \<in> set (''$6$salt$terces'' @ NUL # replicate 369 NUL)"
    by simp
  show ?thesis
    using call str nul
      wrap_crypt_r_error_iff [OF call, of example_state]
      wrap_crypt_r_error_iff [OF call, of exhausted_state]
    by (simp add: example_state_def exhausted_state_def)
qed

text \<open>
  C2, as the claim has it, fails: with no room left on the heap the library succeeds and
  \<open>wrap_crypt_r\<close> returns null all the same.
\<close>

theorem wrap_crypt_r_error_without_library_error:
  "fst (crypt_r example_libcrypt (Some (''secret'' @ [NUL])) (Some (''$6$salt'' @ [NUL]))
          (zeroed_data example_libcrypt)) = Non_null
   \<and> outcome_of
        (wrap_crypt_r example_libcrypt exhausted_state
           (Some (''secret'' @ [NUL])) (Some (''$6$salt'' @ [NUL]))) =
       Error"
  by (simp add: wrap_crypt_r_eq c_str_def example_libcrypt_def call_crypt_r_def
      example_crypt_r_def written_into_def data_output_zeroed exhausted_state_def
      outcome_of_def)

text \<open>
  C3. \<open>feature_test\<close> returns no message exactly when both feature macros are defined;
  in every build where one is missing it returns a message that names a macro that is
  missing.
\<close>

theorem feature_test_both_flags:
  "(feature_test L = None \<longleftrightarrow>
      CRYPT_GENSALT_IMPLEMENTS_DEFAULT_PREFIX L \<and> CRYPT_GENSALT_IMPLEMENTS_AUTO_ENTROPY L)
   \<and> (\<not> (CRYPT_GENSALT_IMPLEMENTS_DEFAULT_PREFIX L \<and> CRYPT_GENSALT_IMPLEMENTS_AUTO_ENTROPY L) \<longrightarrow>
        (\<not> CRYPT_GENSALT_IMPLEMENTS_DEFAULT_PREFIX L \<and>
           feature_test L =
             Some ''libcrypt does not support CRYPT_GENSALT_IMPLEMENTS_DEFAULT_PREFIX'')
        \<or> (\<not> CRYPT_GENSALT_IMPLEMENTS_AUTO_ENTROPY L \<and>
           feature_test L =
             Some ''libcrypt does not support CRYPT_GENSALT_IMPLEMENTS_AUTO_ENTROPY''))"
  by (simp add: feature_test_def)

theorem feature_test_both_flags_witness:
  "feature_test example_libcrypt = None
   \<and> \<not> CRYPT_GENSALT_IMPLEMENTS_AUTO_ENTROPY
          (example_libcrypt\<lparr>CRYPT_GENSALT_IMPLEMENTS_AUTO_ENTROPY := False\<rparr>)
   \<and> feature_test (example_libcrypt\<lparr>CRYPT_GENSALT_IMPLEMENTS_AUTO_ENTROPY := False\<rparr>) =
       Some ''libcrypt does not support CRYPT_GENSALT_IMPLEMENTS_AUTO_ENTROPY''"
  using feature_test_both_flags [of example_libcrypt]
    feature_test_both_flags [of "example_libcrypt\<lparr>CRYPT_GENSALT_IMPLEMENTS_AUTO_ENTROPY := False\<rparr>"]
  by (simp add: example_libcrypt_def)



text \<open>
  C5, as the code has it. Two calls of \<open>wrap_crypt_r\<close> with the same phrase and setting,
  started in any two states (whatever the stack held, whatever objects are live, whatever
  was called before), give the caller the same outcome when the heap has the same room in
  both, or room for \<open>CRYPT_OUTPUT_SIZE\<close> bytes in both. In general they never give two
  different texts, and differ only when one of them is an error. The \<open>memset\<close> makes the
  scratch state \<open>crypt_r\<close> is given the same in both.
\<close>

theorem wrap_crypt_r_deterministic:
  "(heap_free s1 = heap_free s2 \<longrightarrow>
      outcome_of (wrap_crypt_r L s1 phrase setting) =
      outcome_of (wrap_crypt_r L s2 phrase setting))
   \<and> (CRYPT_OUTPUT_SIZE L \<le> heap_free s1 \<and> CRYPT_OUTPUT_SIZE L \<le> heap_free s2 \<longrightarrow>
      outcome_of (wrap_crypt_r L s1 phrase setting) =
      outcome_of (wrap_crypt_r L s2 phrase setting))
   \<and> (outcome_of (wrap_crypt_r L s1 phrase setting) =
        outcome_of (wrap_crypt_r L s2 phrase setting)
      \<or> outcome_of (wrap_crypt_r L s1 phrase setting) = Error
      \<or> outcome_of (wrap_crypt_r L s2 phrase setting) = Error)
   \<and> (\<forall>t1 t2. outcome_of (wrap_crypt_r L s1 phrase setting) = Text t1 \<and>
              outcome_of (wrap_crypt_r L s2 phrase setting) = Text t2 \<longrightarrow> t1 = t2)"
proof -
  obtain r d1 where call: "call_crypt_r L phrase setting (zeroed_data L) = (r, d1)"
    by (cases "call_crypt_r L phrase setting (zeroed_data L)")
  have fits: "length (c_str (data_output d1)) + 1 \<le> CRYPT_OUTPUT_SIZE L"
    if "NUL \<in> set (data_output d1)"
    using length_c_str_less [OF that] call_crypt_r_length [OF call] by simp
  have room: "outcome_of (wrap_crypt_r L s1 phrase setting) =
      outcome_of (wrap_crypt_r L s2 phrase setting)"
    if "CRYPT_OUTPUT_SIZE L \<le> heap_free s1" "CRYPT_OUTPUT_SIZE L \<le> heap_free s2"
  proof (cases "NUL \<in> set (data_output d1)")
    case True
    from fits [OF True] that show ?thesis
      by (simp add: outcome_wrap_crypt_r [OF call])
  next
    case False
    then show ?thesis by (simp add: outcome_wrap_crypt_r [OF call])
  qed
  have rest: "(heap_free s1 = heap_free s2 \<longrightarrow>
      outcome_of (wrap_crypt_r L s1 phrase setting) =
      outcome_of (wrap_crypt_r L s2 phrase setting))
   \<and> (outcome_of (wrap_crypt_r L s1 phrase setting) =
        outcome_of (wrap_crypt_r L s2 phrase setting)
      \<or> outcome_of (wrap_crypt_r L s1 phrase setting) = Error
      \<or> outcome_of (wrap_crypt_r L s2 phrase setting) = Error)
   \<and> (\<forall>t1 t2. outcome_of (wrap_crypt_r L s1 phrase setting) = Text t1 \<and>
              outcome_of (wrap_crypt_r L s2 phrase setting) = Text t2 \<longrightarrow> t1 = t2)"
    by (auto simp: outcome_wrap_crypt_r [OF call] split: if_splits)
  from room rest show ?thesis by blast
qed

theorem wrap_crypt_r_deterministic_witness:
  "heap_free example_state = heap_free busy_state
   \<and> CRYPT_OUTPUT_SIZE example_libcrypt \<le> heap_free example_state
   \<and> CRYPT_OUTPUT_SIZE example_libcrypt \<le> heap_free busy_state
   \<and> junk example_state 1 \<noteq> junk busy_state 1
   \<and> store example_state \<noteq> store busy_state
   \<and> outcome_of
        (wrap_crypt_r example_libcrypt example_state
           (Some (''secret'' @ [NUL])) (Some (''$6$salt'' @ [NUL]))) =
       Text ''$6$salt$terces''
   \<and> outcome_of
        (wrap_crypt_r example_libcrypt busy_state
           (Some (''secret'' @ [NUL])) (Some (''$6$salt'' @ [NUL]))) =
       Text ''$6$salt$terces''"
proof -
  have run: "outcome_of
        (wrap_crypt_r example_libcrypt example_state
           (Some (''secret'' @ [NUL])) (Some (''$6$salt'' @ [NUL]))) =
       Text ''$6$salt$terces''"
    by (simp add: wrap_crypt_r_eq c_str_def example_libcrypt_def call_crypt_r_def
        example_crypt_r_def written_into_def data_output_zeroed example_state_def
        outcome_of_def string_at_def lookup_def returned_copy_def)
  have size: "CRYPT_OUTPUT_SIZE example_libcrypt = 384"
    by (simp add: example_libcrypt_def)
  show ?thesis
    using run
      wrap_crypt_r_deterministic
        [of example_state busy_state example_libcrypt
            "Some (''secret'' @ [NUL])" "Some (''$6$salt'' @ [NUL])"]
    by (simp add: example_state_def busy_state_def size)
qed

text \<open>
  C5, as the claim has it, fails: with room for 15 bytes on the heap the first call returns
  the 14 bytes of the hash and their terminator, and the same call made again, in the state
  the first one left, returns null.
\<close>

theorem wrap_crypt_r_repeated_call_differs:
  "wrap_crypt_r example_libcrypt tight_state
     (Some (''secret'' @ [NUL])) (Some (''$6$salt'' @ [NUL])) =
     Inr (Ptr 1,
          returned_copy tight_state
            (Call_crypt_r (Some (''secret'' @ [NUL])) (Some (''$6$salt'' @ [NUL]))
               (zeroed_data example_libcrypt))
            ''$6$salt$terces'')
   \<and> outcome_of
        (wrap_crypt_r example_libcrypt tight_state
           (Some (''secret'' @ [NUL])) (Some (''$6$salt'' @ [NUL]))) =
       Text ''$6$salt$terces''
   \<and> outcome_of
        (wrap_crypt_r example_libcrypt
           (returned_copy tight_state
              (Call_crypt_r (Some (''secret'' @ [NUL])) (Some (''$6$salt'' @ [NUL]))
                 (zeroed_data example_libcrypt))
              ''$6$salt$terces'')
           (Some (''secret'' @ [NUL])) (Some (''$6$salt'' @ [NUL]))) =
       Error"
proof -
  have call: "call_crypt_r example_libcrypt (Some (''secret'' @ [NUL]))
       (Some (''$6$salt'' @ [NUL])) (zeroed_data example_libcrypt) =
     (Non_null,
      \<lparr>data_output = ''$6$salt$terces'' @ NUL # replicate 369 NUL,
       other_members = replicate 32384 NUL\<rparr>)"
    by (simp add: call_crypt_r_def example_libcrypt_def example_crypt_r_def zeroed_data_def
        written_into_def c_str_def)
  have str: "c_str (''$6$salt$terces'' @ NUL # replicate 369 NUL) = ''$6$salt$terces''"
    by (simp add: c_str_def)
  have first: "wrap_crypt_r example_libcrypt tight_state
     (Some (''secret'' @ [NUL])) (Some (''$6$salt'' @ [NUL])) =
     Inr (Ptr 1,
          returned_copy tight_state
            (Call_crypt_r (Some (''secret'' @ [NUL])) (Some (''$6$salt'' @ [NUL]))
               (zeroed_data example_libcrypt))
            ''$6$salt$terces'')"
    using call str by (simp add: wrap_crypt_r_eq) (simp add: tight_state_def)
  have out1: "outcome_of
        (wrap_crypt_r example_libcrypt tight_state
           (Some (''secret'' @ [NUL])) (Some (''$6$salt'' @ [NUL]))) =
       Text ''$6$salt$terces''"
    using outcome_wrap_crypt_r [OF call, of tight_state] str
    by (simp add: tight_state_def)
  have out2: "outcome_of
        (wrap_crypt_r example_libcrypt
           (returned_copy tight_state
              (Call_crypt_r (Some (''secret'' @ [NUL])) (Some (''$6$salt'' @ [NUL]))
                 (zeroed_data example_libcrypt))
              ''$6$salt$terces'')
           (Some (''secret'' @ [NUL])) (Some (''$6$salt'' @ [NUL]))) =
       Error"
    using outcome_wrap_crypt_r [OF call,
        of "returned_copy tight_state
              (Call_crypt_r (Some (''secret'' @ [NUL])) (Some (''$6$salt'' @ [NUL]))
                 (zeroed_data example_libcrypt))
              ''$6$salt$terces''"] str
    by (simp add: returned_copy_def tight_state_def)
  from first out1 out2 show ?thesis by simp
qed

text \<open>
  C6. \<open>wrap_crypt_r\<close> passes \<open>phrase\<close> and \<open>setting\<close> to \<open>crypt_r\<close> as it received
  them, whatever they are (empty strings and null pointers too): it never reads through
  either pointer, a call that returns has made exactly this one library call, two inputs
  the library answers alike get the same outcome, and where the library succeeds the shim
  does not report an error as long as the copy can be allocated.
\<close>

theorem wrap_crypt_r_passes_arguments:
  "wrap_crypt_r L s phrase setting \<noteq> Inl Null_dereference
   \<and> (\<forall>p s'. wrap_crypt_r L s phrase setting = Inr (p, s') \<longrightarrow>
         calls s' = calls s @ [Call_crypt_r phrase setting (zeroed_data L)])
   \<and> (call_crypt_r L phrase setting (zeroed_data L) =
        call_crypt_r L phrase' setting' (zeroed_data L) \<longrightarrow>
        outcome_of (wrap_crypt_r L s phrase setting) =
        outcome_of (wrap_crypt_r L s phrase' setting'))
   \<and> (fst (crypt_r L phrase setting (zeroed_data L)) = Non_null \<and>
        CRYPT_OUTPUT_SIZE L \<le> heap_free s \<longrightarrow>
        outcome_of (wrap_crypt_r L s phrase setting) \<noteq> Error)"
proof -
  obtain r d1 where call: "call_crypt_r L phrase setting (zeroed_data L) = (r, d1)"
    by (cases "call_crypt_r L phrase setting (zeroed_data L)")
  have no_deref: "wrap_crypt_r L s phrase setting \<noteq> Inl Null_dereference"
    by (simp add: wrap_crypt_r_eq call Let_def)
  have log: "\<forall>p s'. wrap_crypt_r L s phrase setting = Inr (p, s') \<longrightarrow>
      calls s' = calls s @ [Call_crypt_r phrase setting (zeroed_data L)]"
    using wrap_crypt_r_post [of L s phrase setting]
    by (auto simp: calls_returned calls_returned_copy)
  have same: "outcome_of (wrap_crypt_r L s phrase setting) =
      outcome_of (wrap_crypt_r L s phrase' setting')"
    if "call_crypt_r L phrase setting (zeroed_data L) =
        call_crypt_r L phrase' setting' (zeroed_data L)"
    using outcome_wrap_crypt_r [OF call, of s] outcome_wrap_crypt_r [of L phrase' setting' r d1 s]
      that call by simp
  have r: "fst (crypt_r L phrase setting (zeroed_data L)) = r"
    using call by (auto simp: call_crypt_r_def split: prod.splits)
  have accept: "outcome_of (wrap_crypt_r L s phrase setting) \<noteq> Error"
    if "r = Non_null" and "CRYPT_OUTPUT_SIZE L \<le> heap_free s"
  proof (cases "NUL \<in> set (data_output d1)")
    case True
    then have "length (c_str (data_output d1)) < CRYPT_OUTPUT_SIZE L"
      using length_c_str_less [OF True] call_crypt_r_length [OF call] by simp
    with that True show ?thesis
      by (simp add: outcome_wrap_crypt_r [OF call])
  next
    case False
    with that show ?thesis
      by (simp add: outcome_wrap_crypt_r [OF call])
  qed
  show ?thesis
    using no_deref log same accept r by blast
qed

theorem wrap_crypt_r_passes_arguments_witness:
  "wrap_crypt_r example_libcrypt example_state (Some [NUL]) (Some [NUL]) =
     Inr (NULL,
          returned example_state (Call_crypt_r (Some [NUL]) (Some [NUL]) (zeroed_data example_libcrypt)))
   \<and> calls (returned example_state
              (Call_crypt_r (Some [NUL]) (Some [NUL]) (zeroed_data example_libcrypt))) =
       calls example_state @
         [Call_crypt_r (Some [NUL]) (Some [NUL]) (zeroed_data example_libcrypt)]
   \<and> call_crypt_r example_libcrypt (Some [NUL]) (Some [NUL]) (zeroed_data example_libcrypt) =
       call_crypt_r example_libcrypt None None (zeroed_data example_libcrypt)
   \<and> outcome_of (wrap_crypt_r example_libcrypt example_state (Some [NUL]) (Some [NUL])) =
       outcome_of (wrap_crypt_r example_libcrypt example_state None None)
   \<and> fst (crypt_r example_libcrypt (Some [NUL]) (Some (''$'' @ [NUL]))
            (zeroed_data example_libcrypt)) = Non_null
   \<and> CRYPT_OUTPUT_SIZE example_libcrypt \<le> heap_free example_state
   \<and> outcome_of (wrap_crypt_r example_libcrypt example_state (Some [NUL]) (Some (''$'' @ [NUL])))
       \<noteq> Error"
proof -
  have run: "wrap_crypt_r example_libcrypt example_state (Some [NUL]) (Some [NUL]) =
     Inr (NULL,
          returned example_state (Call_crypt_r (Some [NUL]) (Some [NUL]) (zeroed_data example_libcrypt)))"
    by (simp add: wrap_crypt_r_eq call_crypt_r_def example_libcrypt_def example_crypt_r_def)
  have same: "call_crypt_r example_libcrypt (Some [NUL]) (Some [NUL]) (zeroed_data example_libcrypt) =
       call_crypt_r example_libcrypt None None (zeroed_data example_libcrypt)"
    by (simp add: call_crypt_r_def example_libcrypt_def example_crypt_r_def)
  have ok: "fst (crypt_r example_libcrypt (Some [NUL]) (Some (''$'' @ [NUL]))
            (zeroed_data example_libcrypt)) = Non_null"
    by (simp add: example_libcrypt_def example_crypt_r_def)
  have room: "CRYPT_OUTPUT_SIZE example_libcrypt \<le> heap_free example_state"
    by (simp add: example_libcrypt_def example_state_def)
  show ?thesis
    using run same ok room
      wrap_crypt_r_passes_arguments
        [of example_libcrypt example_state "Some [NUL]" "Some [NUL]" None None]
      wrap_crypt_r_passes_arguments
        [of example_libcrypt example_state "Some [NUL]" "Some (''$'' @ [NUL])" None None]
    by simp
qed

text \<open>
  C7. After \<open>wrap_crypt_r\<close> or \<open>wrap_crypt_gensalt_rn\<close> has returned, the scratch object
  of the call (the first object the call creates, at the first unused address) is no
  longer alive; the objects that were alive before the call are as they were; and the only
  other object alive is, on success, the returned one: a new allocated string at another
  address than the scratch object, paid for from the heap. On an error nothing new is
  alive and the heap has the room it had.
\<close>

theorem scratch_does_not_outlive_call:
  assumes "wrap_crypt_r L s phrase setting = Inr (p, s')
         \<or> wrap_crypt_gensalt_rn L s prefix = Inr (p, s')"
  shows "length (store s) < length (store s') \<and> lookup s' (length (store s)) = None
       \<and> (\<forall>a ob. lookup s a = Some ob \<longrightarrow> lookup s' a = Some ob)
       \<and> (\<forall>a ob. lookup s' a = Some ob \<longrightarrow>
             lookup s a = Some ob \<or> (p = Ptr a \<and> lookup s a = None \<and> duration ob = Allocated))
       \<and> (p = NULL \<longrightarrow> heap_free s' = heap_free s)
       \<and> (\<forall>a. p = Ptr a \<longrightarrow>
             a \<noteq> length (store s) \<and>
             (\<exists>t. NUL \<notin> set t \<and>
                  lookup s' a = Some \<lparr>duration = Allocated, val = Char_array (t @ [NUL])\<rparr> \<and>
                  heap_free s' + (length t + 1) = heap_free s))"
proof -
  have post: "\<exists>c. (p = NULL \<and> s' = returned s c)
       \<or> (\<exists>t. NUL \<notin> set t \<and> length t + 1 \<le> heap_free s
              \<and> p = Ptr (Suc (length (store s)))
              \<and> s' = returned_copy s c t)"
    using assms wrap_crypt_r_post [of L s phrase setting p s']
      wrap_crypt_gensalt_rn_post [of L s prefix p s']
    by blast
  then obtain c where
    "(p = NULL \<and> s' = returned s c)
       \<or> (\<exists>t. NUL \<notin> set t \<and> length t + 1 \<le> heap_free s
              \<and> p = Ptr (Suc (length (store s)))
              \<and> s' = returned_copy s c t)"
    by blast
  then show ?thesis
  proof (elim disjE conjE exE)
    assume p: "p = NULL" and s': "s' = returned s c"
    have "length (store s) < length (store s')" "heap_free s' = heap_free s"
      by (simp_all add: s' returned_def)
    moreover have "lookup s a = None" if "length (store s) \<le> a" for a
      using that by (simp add: lookup_def)
    ultimately show ?thesis
      using p by (auto simp: s' lookup_returned split: if_splits)
  next
    fix t
    assume t: "NUL \<notin> set t" "length t + 1 \<le> heap_free s"
      and p: "p = Ptr (Suc (length (store s)))" and s': "s' = returned_copy s c t"
    have "length (store s) < length (store s')"
      "heap_free s' + (length t + 1) = heap_free s"
      using t by (simp_all add: s' returned_copy_def)
    moreover have none: "lookup s a = None" if "length (store s) \<le> a" for a
      using that by (simp add: lookup_def)
    ultimately show ?thesis
      using p t none [of "length (store s)"] none [of "Suc (length (store s))"]
      by (auto simp: s' lookup_returned_copy split: if_splits)
  qed
qed

theorem scratch_does_not_outlive_call_witness:
  "wrap_crypt_r example_libcrypt busy_state
     (Some (''secret'' @ [NUL])) (Some (''$6$salt'' @ [NUL])) =
     Inr (Ptr 2,
          returned_copy busy_state
            (Call_crypt_r (Some (''secret'' @ [NUL])) (Some (''$6$salt'' @ [NUL]))
               (zeroed_data example_libcrypt))
            ''$6$salt$terces'')
   \<and> length (store busy_state) = 1
   \<and> lookup
        (returned_copy busy_state
           (Call_crypt_r (Some (''secret'' @ [NUL])) (Some (''$6$salt'' @ [NUL]))
              (zeroed_data example_libcrypt))
           ''$6$salt$terces'') 1 = None
   \<and> lookup
        (returned_copy busy_state
           (Call_crypt_r (Some (''secret'' @ [NUL])) (Some (''$6$salt'' @ [NUL]))
              (zeroed_data example_libcrypt))
           ''$6$salt$terces'') 2 =
       Some \<lparr>duration = Allocated, val = Char_array (''$6$salt$terces'' @ [NUL])\<rparr>
   \<and> lookup
        (returned_copy busy_state
           (Call_crypt_r (Some (''secret'' @ [NUL])) (Some (''$6$salt'' @ [NUL]))
              (zeroed_data example_libcrypt))
           ''$6$salt$terces'') 0 = lookup busy_state 0"
proof -
  have run: "wrap_crypt_r example_libcrypt busy_state
     (Some (''secret'' @ [NUL])) (Some (''$6$salt'' @ [NUL])) =
     Inr (Ptr 2,
          returned_copy busy_state
            (Call_crypt_r (Some (''secret'' @ [NUL])) (Some (''$6$salt'' @ [NUL]))
               (zeroed_data example_libcrypt))
            ''$6$salt$terces'')"
    by (simp add: wrap_crypt_r_eq c_str_def example_libcrypt_def call_crypt_r_def
        example_crypt_r_def written_into_def data_output_zeroed busy_state_def)
  have len: "length (store busy_state) = 1"
    by (simp add: busy_state_def)
  have old: "lookup busy_state 0 =
      Some \<lparr>duration = Allocated, val = Char_array (''x'' @ [NUL])\<rparr>"
    by (simp add: busy_state_def lookup_def)
  note post = scratch_does_not_outlive_call
        [of example_libcrypt busy_state "Some (''secret'' @ [NUL])" "Some (''$6$salt'' @ [NUL])"
            "Ptr 2" _ None, OF disjI1, OF run]
  from post have dead: "lookup
        (returned_copy busy_state
           (Call_crypt_r (Some (''secret'' @ [NUL])) (Some (''$6$salt'' @ [NUL]))
              (zeroed_data example_libcrypt))
           ''$6$salt$terces'') (length (store busy_state)) = None"
    by (rule conjunct2 [THEN conjunct1])
  from post have kept: "\<forall>a ob. lookup busy_state a = Some ob \<longrightarrow>
      lookup
        (returned_copy busy_state
           (Call_crypt_r (Some (''secret'' @ [NUL])) (Some (''$6$salt'' @ [NUL]))
              (zeroed_data example_libcrypt))
           ''$6$salt$terces'') a = Some ob"
    by (rule conjunct2 [THEN conjunct2, THEN conjunct1])
  have same: "lookup
        (returned_copy busy_state
           (Call_crypt_r (Some (''secret'' @ [NUL])) (Some (''$6$salt'' @ [NUL]))
              (zeroed_data example_libcrypt))
           ''$6$salt$terces'') 0 = lookup busy_state 0"
    using kept old by simp
  have copy: "lookup
        (returned_copy busy_state
           (Call_crypt_r (Some (''secret'' @ [NUL])) (Some (''$6$salt'' @ [NUL]))
              (zeroed_data example_libcrypt))
           ''$6$salt$terces'') 2 =
       Some \<lparr>duration = Allocated, val = Char_array (''$6$salt$terces'' @ [NUL])\<rparr>"
    by (simp add: lookup_returned_copy len)
  show ?thesis
    using run len dead same copy by simp
qed

text \<open>
  C8. The text a successful \<open>wrap_crypt_gensalt_rn\<close> returns is what \<open>buf\<close> holds after
  the library call, up to its first terminator: it is an initial part of \<open>buf\<close>, has no
  null byte in it and at most \<open>CRYPT_GENSALT_OUTPUT_SIZE\<close> bytes, and fewer than that
  whenever \<open>buf\<close> holds a terminator.
\<close>

theorem gensalt_text_is_truncated:
  assumes "wrap_crypt_gensalt_rn L s prefix = Inr (Ptr a, s')"
    and "call_crypt_gensalt_rn L (if strlen prefix = Inr 0 then None else prefix)
           (indeterminate s (CRYPT_GENSALT_OUTPUT_SIZE L)) = (r, b1)"
  shows "string_at s' a = Some (c_str b1)
       \<and> c_str b1 = take (length (c_str b1)) b1
       \<and> NUL \<notin> set (c_str b1)
       \<and> length (c_str b1) \<le> CRYPT_GENSALT_OUTPUT_SIZE L
       \<and> (NUL \<in> set b1 \<longrightarrow> length (c_str b1) < CRYPT_GENSALT_OUTPUT_SIZE L)"
proof -
  obtain n where n: "strlen prefix = Inr n"
    using assms(1) by (cases "strlen prefix") (simp_all add: wrap_crypt_gensalt_rn_def)
  have q: "(if strlen prefix = Inr 0 then None else prefix) = (if n = 0 then None else prefix)"
    by (simp add: n)
  have call: "call_crypt_gensalt_rn L (if n = 0 then None else prefix)
           (indeterminate s (CRYPT_GENSALT_OUTPUT_SIZE L)) = (r, b1)"
    using assms(2) unfolding q .
  have len: "length b1 = CRYPT_GENSALT_OUTPUT_SIZE L"
    using call_crypt_gensalt_rn_length [OF call] by (simp add: length_indeterminate)
  have "a = Suc (length (store s)) \<and>
      s' = returned_copy s
             (Call_crypt_gensalt_rn (if n = 0 then None else prefix) 0 None 0
                (indeterminate s (CRYPT_GENSALT_OUTPUT_SIZE L))
                (int (CRYPT_GENSALT_OUTPUT_SIZE L)))
             (c_str b1)"
    using assms(1) by (auto simp: wrap_crypt_gensalt_rn_eq n call Let_def split: if_splits)
  then have "string_at s' a = Some (c_str b1)"
    by (simp add: string_at_returned_copy NUL_notin_c_str)
  moreover have "c_str b1 = take (length (c_str b1)) b1"
    unfolding c_str_def by (rule takeWhile_eq_take)
  moreover have "length (c_str b1) \<le> CRYPT_GENSALT_OUTPUT_SIZE L"
    using length_c_str_le [of b1] len by simp
  moreover have "length (c_str b1) < CRYPT_GENSALT_OUTPUT_SIZE L" if "NUL \<in> set b1"
    using length_c_str_less [OF that] len by simp
  ultimately show ?thesis
    using NUL_notin_c_str [of b1] by blast
qed

theorem gensalt_text_is_truncated_witness:
  "wrap_crypt_gensalt_rn example_libcrypt example_state (Some (''$6$'' @ [NUL])) =
     Inr (Ptr 1,
          returned_copy example_state
            (Call_crypt_gensalt_rn (Some (''$6$'' @ [NUL])) 0 None 0
               (indeterminate example_state 192) 192)
            ''$6$salt'')
   \<and> call_crypt_gensalt_rn example_libcrypt (Some (''$6$'' @ [NUL]))
        (indeterminate example_state 192) =
       (Non_null, ''$6$salt'' @ NUL # replicate 184 (CHR ''J''))
   \<and> string_at
        (returned_copy example_state
           (Call_crypt_gensalt_rn (Some (''$6$'' @ [NUL])) 0 None 0
              (indeterminate example_state 192) 192)
           ''$6$salt'') 1 = Some ''$6$salt''
   \<and> length ''$6$salt'' < CRYPT_GENSALT_OUTPUT_SIZE example_libcrypt"
proof -
  from gensalt_text_is_truncated [OF example_gensalt_run example_gensalt_call_as_made]
    example_gensalt_c_str
  have ret: "string_at
        (returned_copy example_state
           (Call_crypt_gensalt_rn (Some (''$6$'' @ [NUL])) 0 None 0
              (indeterminate example_state 192) 192)
           ''$6$salt'') 1 = Some ''$6$salt''"
    by simp
  show ?thesis
    using example_gensalt_run example_gensalt_call ret by (simp add: example_gensalt_size)
qed

text \<open>
  C9. The macros are tested in a fixed order: whenever the default-prefix macro is missing
  the message is the default-prefix one, also when the auto-entropy macro is missing too;
  the auto-entropy message is returned exactly when the default-prefix macro is defined
  and the auto-entropy macro is not.
\<close>

theorem feature_test_order:
  "(\<not> CRYPT_GENSALT_IMPLEMENTS_DEFAULT_PREFIX L \<longrightarrow>
      feature_test L = Some ''libcrypt does not support CRYPT_GENSALT_IMPLEMENTS_DEFAULT_PREFIX'')
   \<and> (feature_test L = Some ''libcrypt does not support CRYPT_GENSALT_IMPLEMENTS_AUTO_ENTROPY''
        \<longleftrightarrow> CRYPT_GENSALT_IMPLEMENTS_DEFAULT_PREFIX L \<and> \<not> CRYPT_GENSALT_IMPLEMENTS_AUTO_ENTROPY L)"
  by (simp add: feature_test_def)

theorem feature_test_order_witness:
  "\<not> CRYPT_GENSALT_IMPLEMENTS_DEFAULT_PREFIX
       (example_libcrypt\<lparr>CRYPT_GENSALT_IMPLEMENTS_DEFAULT_PREFIX := False,
                          CRYPT_GENSALT_IMPLEMENTS_AUTO_ENTROPY := False\<rparr>)
   \<and> feature_test
       (example_libcrypt\<lparr>CRYPT_GENSALT_IMPLEMENTS_DEFAULT_PREFIX := False,
                          CRYPT_GENSALT_IMPLEMENTS_AUTO_ENTROPY := False\<rparr>) =
       Some ''libcrypt does not support CRYPT_GENSALT_IMPLEMENTS_DEFAULT_PREFIX''"
  using feature_test_order
    [of "example_libcrypt\<lparr>CRYPT_GENSALT_IMPLEMENTS_DEFAULT_PREFIX := False,
                            CRYPT_GENSALT_IMPLEMENTS_AUTO_ENTROPY := False\<rparr>"]
  by (simp add: example_libcrypt_def)

text \<open>
  C10. \<open>wrap_crypt_gensalt_rn\<close> takes \<open>strlen(prefix)\<close> before anything else, so a null
  prefix is dereferenced: the call is defined exactly for a prefix that points to a
  terminated string.
\<close>

theorem wrap_crypt_gensalt_rn_domain:
  "wrap_crypt_gensalt_rn L s None = Inl Null_dereference
   \<and> ((\<exists>r. wrap_crypt_gensalt_rn L s prefix = Inr r) \<longleftrightarrow> (\<exists>bs. prefix = Some bs \<and> NUL \<in> set bs))"
proof -
  have "(\<exists>r. wrap_crypt_gensalt_rn L s prefix = Inr r) \<longleftrightarrow> (\<exists>n. strlen prefix = Inr n)"
    by (cases "strlen prefix")
      (auto simp: wrap_crypt_gensalt_rn_eq Let_def split: prod.splits)
  then show ?thesis
    by (simp add: strlen_Inr_iff) (simp add: wrap_crypt_gensalt_rn_def strlen_def)
qed

theorem wrap_crypt_gensalt_rn_domain_witness:
  "wrap_crypt_gensalt_rn example_libcrypt example_state None = Inl Null_dereference
   \<and> (\<exists>r. wrap_crypt_gensalt_rn example_libcrypt example_state (Some (''$6$'' @ [NUL])) = Inr r)
   \<and> (\<nexists>r. wrap_crypt_gensalt_rn example_libcrypt example_state (Some ''$6$'') = Inr r)"
  using wrap_crypt_gensalt_rn_domain [of example_libcrypt example_state "Some (''$6$'' @ [NUL])"]
    wrap_crypt_gensalt_rn_domain [of example_libcrypt example_state "Some ''$6$''"]
  by simp

end
